theory Spec2Isabelle
  imports Complex_Main
begin

section \<open>conjunction.py: duration strings\<close>

text \<open>
  \<^verbatim>\<open>strToSeconds\<close> runs four regular-expression searches, \<^verbatim>\<open>([0-9]+)d\<close>,
  \<^verbatim>\<open>([0-9]+)h\<close>, \<^verbatim>\<open>([0-9]+)m\<close> and \<^verbatim>\<open>([0-9]+)s\<close>, over the same string and adds
  up what the matches stand for. Python's \<^verbatim>\<open>re.search\<close> returns the leftmost match;
  \<^verbatim>\<open>[0-9]+\<close> is greedy, and since the unit letter is not a digit, giving digits back
  never helps: at a given position the pattern matches exactly when the maximal run of
  digits there is not empty and is followed by the unit letter.
\<close>

definition is_digit :: "char \<Rightarrow> bool" where
  "is_digit c \<longleftrightarrow> (48::nat) \<le> of_char c \<and> of_char c \<le> (57::nat)"

text \<open>The pattern \<^verbatim>\<open>([0-9]+)u\<close> tried at the head of the string; the result is group 1.\<close>

definition match_at :: "char \<Rightarrow> string \<Rightarrow> string option" where
  "match_at u s =
     (let ds = takeWhile is_digit s in
      if ds \<noteq> [] \<and> take 1 (dropWhile is_digit s) = [u] then Some ds else None)"

text \<open>\<^verbatim>\<open>re.search\<close>: the first position, from the left, where the pattern matches.\<close>

fun re_search :: "char \<Rightarrow> string \<Rightarrow> string option" where
  "re_search u [] = None"
| "re_search u (c # cs) =
     (case match_at u (c # cs) of Some ds \<Rightarrow> Some ds | None \<Rightarrow> re_search u cs)"

text \<open>\<^verbatim>\<open>int(m.group(1))\<close> on a string of decimal digits.\<close>

definition py_int :: "string \<Rightarrow> nat" where
  "py_int ds = foldl (\<lambda>a c. 10 * a + (of_char c - 48)) 0 ds"

definition strToSeconds :: "string \<Rightarrow> nat" where
  "strToSeconds s =
     (let seconds = 0;
          seconds = (case re_search CHR ''d'' s of
                       Some g \<Rightarrow> seconds + py_int g * 24 * 60 * 60 | None \<Rightarrow> seconds);
          seconds = (case re_search CHR ''h'' s of
                       Some g \<Rightarrow> seconds + py_int g * 60 * 60 | None \<Rightarrow> seconds);
          seconds = (case re_search CHR ''m'' s of
                       Some g \<Rightarrow> seconds + py_int g * 60 | None \<Rightarrow> seconds);
          seconds = (case re_search CHR ''s'' s of
                       Some g \<Rightarrow> seconds + py_int g | None \<Rightarrow> seconds)
      in seconds)"

subsection \<open>Duration strings made of unit tokens\<close>

text \<open>
  A token is a non-empty string of digits followed by one of the unit letters. A
  duration string is the concatenation of tokens, each unit used at most once.
\<close>

type_synonym token = "string \<times> char"

definition units :: "char list" where
  "units = [CHR ''d'', CHR ''h'', CHR ''m'', CHR ''s'']"

definition valid_token :: "token \<Rightarrow> bool" where
  "valid_token tk \<longleftrightarrow> fst tk \<noteq> [] \<and> list_all is_digit (fst tk) \<and> snd tk \<in> set units"

definition valid_tokens :: "token list \<Rightarrow> bool" where
  "valid_tokens toks \<longleftrightarrow> list_all valid_token toks \<and> distinct (map snd toks)"

definition render :: "token list \<Rightarrow> string" where
  "render toks = concat (map (\<lambda>tk. fst tk @ [snd tk]) toks)"

definition unit_seconds :: "char \<Rightarrow> nat" where
  "unit_seconds u =
     (if u = CHR ''d'' then 86400 else if u = CHR ''h'' then 3600
      else if u = CHR ''m'' then 60 else if u = CHR ''s'' then 1 else 0)"

text \<open>The number written in front of unit \<open>u\<close>, and 0 when the unit is absent.\<close>

definition amount :: "token list \<Rightarrow> char \<Rightarrow> nat" where
  "amount toks u = (case find (\<lambda>tk. snd tk = u) toks of None \<Rightarrow> 0 | Some tk \<Rightarrow> py_int (fst tk))"

text \<open>A string holds one of the patterns when a digit is directly followed by a unit letter.\<close>

definition has_pattern :: "string \<Rightarrow> bool" where
  "has_pattern s \<longleftrightarrow> (\<exists>i. Suc i < length s \<and> is_digit (s ! i) \<and> s ! Suc i \<in> set units)"

section \<open>conjunction.py: the scan over the time window\<close>

text \<open>
  Dates are \<^verbatim>\<open>ephem.Date\<close> values, floating-point numbers of days; separations are
  floating-point radians. Both are modelled as real numbers, so the arithmetic of the
  model is exact where the program's is rounded. The ephemeris computation of lines
  198 to 201 (set the observer's date, compute both bodies, take their separation) is
  the parameter \<open>sep\<close>, the separation as a function of the instant.

  The state of the loop is the current instant \<^verbatim>\<open>t\<close> and the two records
  \<^verbatim>\<open>min\<close> and \<^verbatim>\<open>max\<close>, each a pair of a separation and an instant. The model adds
  the list of instants at which the ephemeris was queried, oldest first.
\<close>

record scan_state =
  st_t :: real
  st_min :: "real \<times> real"
  st_max :: "real \<times> real"
  st_trace :: "real list"

text \<open>One run of the loop body, lines 198 to 208.\<close>

definition scan_body :: "(real \<Rightarrow> real) \<Rightarrow> nat \<Rightarrow> scan_state \<Rightarrow> scan_state" where
  "scan_body sep resolution st =
     (let s = sep (st_t st);
          mn = (if s < fst (st_min st) then (s, st_t st) else st_min st);
          mx = (if s > fst (st_max st) then (s, st_t st) else st_max st)
      in \<lparr>st_t = st_t st + real resolution / real (24 * 60 * 60),
          st_min = mn, st_max = mx, st_trace = st_trace st @ [st_t st]\<rparr>)"

text \<open>The loop of line 197; a loop that never ends has the value \<open>None\<close>.\<close>

partial_function (option) scan_loop ::
  "(real \<Rightarrow> real) \<Rightarrow> nat \<Rightarrow> real \<Rightarrow> scan_state \<Rightarrow> scan_state option" where
  "scan_loop sep resolution end_date st =
     (if st_t st < end_date then scan_loop sep resolution end_date (scan_body sep resolution st)
      else Some st)"

text \<open>Lines 192 to 208: the seeds, the right edge of the window and the loop.\<close>

definition scan_init :: "real \<Rightarrow> scan_state" where
  "scan_init start = \<lparr>st_t = start, st_min = (2 * pi, start), st_max = (0, start), st_trace = []\<rparr>"

definition end_of :: "real \<Rightarrow> nat \<Rightarrow> real" where
  "end_of start duration = start + real duration / real (24 * 60 * 60)"

definition scan :: "(real \<Rightarrow> real) \<Rightarrow> real \<Rightarrow> nat \<Rightarrow> nat \<Rightarrow> scan_state option" where
  "scan sep start duration resolution =
     scan_loop sep resolution (end_of start duration) (scan_init start)"

text \<open>The instant reached after \<open>k\<close> steps from \<open>start\<close>.\<close>

definition instant :: "real \<Rightarrow> nat \<Rightarrow> nat \<Rightarrow> real" where
  "instant start resolution k = start + real k * (real resolution / real (24 * 60 * 60))"

text \<open>The number of times the body runs when the step is positive.\<close>

definition scan_steps :: "nat \<Rightarrow> nat \<Rightarrow> nat" where
  "scan_steps duration resolution = (duration + resolution - 1) div resolution"

text \<open>A test double for the ephemeris: the same separation at every instant.\<close>

definition fixed_sep :: "real \<Rightarrow> real \<Rightarrow> real" where
  "fixed_sep c t = c"

section \<open>conjunction.py: formatting an angle\<close>

text \<open>
  \<^verbatim>\<open>ddToDms\<close> first tests \<^verbatim>\<open>type(dd) != 'float'\<close>. A type never equals a string, so
  the test always holds and \<^verbatim>\<open>float(dd)\<close> is always tried, under a bare
  \<^verbatim>\<open>except\<close> that prints a message and returns the integer 0. The exceptions of
  the program are the constructors of \<open>error\<close>; an argument is a float, an integer, a
  string or \<^verbatim>\<open>None\<close>. Which strings \<^verbatim>\<open>float\<close> accepts is the parameter
  \<open>str_float\<close>. Floats are modelled as reals.
\<close>

datatype error = TypeError | IndexError | ValueError

datatype pyval = PyFloat real | PyInt int | PyStr string | PyNone

datatype pyres = RInt int | RStr string

definition py_float :: "(string \<Rightarrow> real option) \<Rightarrow> pyval \<Rightarrow> error + real" where
  "py_float str_float v =
     (case v of
        PyFloat x \<Rightarrow> Inr x
      | PyInt i \<Rightarrow> Inr (of_int i)
      | PyStr s \<Rightarrow> (case str_float s of Some x \<Rightarrow> Inr x | None \<Rightarrow> Inl ValueError)
      | PyNone \<Rightarrow> Inl TypeError)"

definition type_repr :: "pyval \<Rightarrow> string" where
  "type_repr v =
     ''<type '' @ [CHR 0x27] @
     (case v of PyFloat _ \<Rightarrow> ''float'' | PyInt _ \<Rightarrow> ''int'' | PyStr _ \<Rightarrow> ''str''
      | PyNone \<Rightarrow> ''NoneType'')
     @ [CHR 0x27] @ ''>''"

text \<open>
  \<^verbatim>\<open>'%s'\<close> of an integer is its decimal numeral. \<^verbatim>\<open>round(seconds, 2)\<close> rounds half
  away from zero to a multiple of 1/100, here the integer number of hundredths, and
  \<^verbatim>\<open>'%s'\<close> of that float is its shortest decimal with at least one digit after the
  point: \<^verbatim>\<open>0.0\<close>, \<^verbatim>\<open>5.5\<close>, \<^verbatim>\<open>25.27\<close>.
\<close>

definition digit_char :: "nat \<Rightarrow> char" where
  "digit_char n = ''0123456789'' ! n"

fun show_nat :: "nat \<Rightarrow> string" where
  "show_nat n = (if n < 10 then [digit_char n] else show_nat (n div 10) @ [digit_char (n mod 10)])"

declare show_nat.simps [simp del]

definition show_int :: "int \<Rightarrow> string" where
  "show_int i = (if i < 0 then CHR ''-'' # show_nat (nat (- i)) else show_nat (nat i))"

definition py_round2 :: "real \<Rightarrow> int" where
  "py_round2 x = (if 0 \<le> x then \<lfloor>x * 100 + 1 / 2\<rfloor> else - \<lfloor>- x * 100 + 1 / 2\<rfloor>)"

definition str_hundredths :: "int \<Rightarrow> string" where
  "str_hundredths c =
     (let a = nat \<bar>c\<bar>; f = a mod 100
      in (if c < 0 then ''-'' else '''') @ show_nat (a div 100) @ ''.'' @
         (if f mod 10 = 0 then [digit_char (f div 10)]
          else [digit_char (f div 10), digit_char (f mod 10)]))"

text \<open>Lines 92 to 104. The result is what was printed and what was returned.\<close>

definition ddToDms :: "(string \<Rightarrow> real option) \<Rightarrow> pyval \<Rightarrow> string list \<times> pyres" where
  "ddToDms str_float dd =
     (case py_float str_float dd of
        Inl e \<Rightarrow>
          ([[CHR 0x0A] @ ''ERROR: Could not convert '' @ type_repr dd @ '' to float.''], RInt 0)
      | Inr x \<Rightarrow>
          (let minutes = frac x * 60;
               seconds = frac minutes * 60
           in ([], RStr (show_int \<lfloor>x\<rfloor> @ '' degrees '' @ show_int \<lfloor>minutes\<rfloor> @ '' minutes ''
                        @ str_hundredths (py_round2 seconds) @ '' seconds''))))"

section \<open>conjunction.py: the program\<close>

text \<open>
  Lines 110 to 139 turn each name of \<^verbatim>\<open>--objects\<close> into a body: a solar-system body,
  a star of the catalogue (the parameter \<open>stars\<close>, read from \<^verbatim>\<open>ephem.stars.db\<close>), or
  a fixed body from a string \<^verbatim>\<open>RA/DEC\<close>. Unpacking \<^verbatim>\<open>object.split("/")\<close> into two
  names raises \<^verbatim>\<open>ValueError\<close> unless there are exactly two parts.
\<close>

datatype body = Solar string | Star string | Fixed string string string

definition solar :: "string list" where
  "solar = [''Sun'', ''Moon'', ''Mercury'', ''Venus'', ''Mars'', ''Jupiter'', ''Saturn'',
            ''Uranus'', ''Neptune'', ''Pluto'', ''Phobos'', ''Deimos'', ''Io'', ''Europa'',
            ''Ganymede'', ''Callisto'', ''Mimas'', ''Enceladus'', ''Tethys'', ''Dione'',
            ''Rhea'', ''Titan'', ''Hyperion'', ''Iapetus'', ''Ariel'', ''Umbriel'', ''Titania'',
            ''Oberon'', ''Miranda'']"

fun split_on :: "char \<Rightarrow> string \<Rightarrow> string list" where
  "split_on c [] = [[]]"
| "split_on c (x # xs) =
     (if x = c then [] # split_on c xs
      else (case split_on c xs of p # ps \<Rightarrow> (x # p) # ps | [] \<Rightarrow> [[x]]))"

definition resolve :: "string list \<Rightarrow> string \<Rightarrow> error + body" where
  "resolve stars object =
     (if object \<in> set solar then Inr (Solar object)
      else if object \<in> set stars then Inr (Star object)
      else (case split_on CHR ''/'' object of
              [ra, dec] \<Rightarrow> Inr (Fixed ra dec object)
            | _ \<Rightarrow> Inl ValueError))"

fun resolve_all :: "string list \<Rightarrow> string list \<Rightarrow> error + body list" where
  "resolve_all stars [] = Inr []"
| "resolve_all stars (n # ns) =
     (case resolve stars n of
        Inl e \<Rightarrow> Inl e
      | Inr b \<Rightarrow> (case resolve_all stars ns of Inl e \<Rightarrow> Inl e | Inr bs \<Rightarrow> Inr (b # bs)))"

text \<open>
  What the program prints, line by line. The text of a list of bodies, of the observer
  and of a date comes from the ephemeris library, so these lines keep what is printed
  instead of its text. A run ends with the lines printed and the exception raised, if
  any; a run that never ends is \<open>None\<close>. The ephemeris, the star catalogue and the
  string-to-float conversion are the environment of a run.
\<close>

datatype out = Text string | ObjectsLine "body list" | LocationLine | WithDate string real

record run =
  printed :: "out list"
  raised :: "error option"

record env =
  env_stars :: "string list"
  env_sep :: "body \<Rightarrow> body \<Rightarrow> real \<Rightarrow> real"
  env_str_float :: "string \<Rightarrow> real option"

definition degrees :: "real \<Rightarrow> real" where
  "degrees x = x * 180 / pi"

definition setup_lines :: "body list \<Rightarrow> real \<Rightarrow> nat \<Rightarrow> nat \<Rightarrow> out list" where
  "setup_lines objects start duration resolution =
     [Text ''--------------- setup ---------------'',
      ObjectsLine objects,
      LocationLine,
      WithDate ''Start Time: '' start,
      Text (''  Duration: '' @ show_nat duration),
      Text (''Resolution: '' @ show_nat resolution)]"

text \<open>
  Line 188 prints \<^verbatim>\<open>len(object)\<close>, not \<^verbatim>\<open>len(objects)\<close>: \<^verbatim>\<open>object\<close> is the loop
  variable of line 126, the last name given.
\<close>

definition warning :: "string list \<Rightarrow> out" where
  "warning names = Text (''Can only handle 2 objects: '' @ show_nat (length (last names)))"

text \<open>Lines 210 to 212.\<close>

definition results :: "env \<Rightarrow> out list \<Rightarrow> scan_state \<Rightarrow> run" where
  "results e out st =
     (let out = out @ [Text ''--------------- results ---------------'']
      in case ddToDms (env_str_float e) (PyFloat (degrees (fst (st_min st)))) of
           (p1, RInt _) \<Rightarrow> \<lparr>printed = out @ map Text p1, raised = Some TypeError\<rparr>
         | (p1, RStr s1) \<Rightarrow>
             (let out = out @ map Text p1
                          @ [WithDate (''Minimum: '' @ s1 @ '' at '') (snd (st_min st))]
              in case ddToDms (env_str_float e) (PyFloat (degrees (fst (st_max st)))) of
                   (p2, RInt _) \<Rightarrow> \<lparr>printed = out @ map Text p2, raised = Some TypeError\<rparr>
                 | (p2, RStr s2) \<Rightarrow>
                     \<lparr>printed = out @ map Text p2
                                 @ [WithDate (''Maximum: '' @ s2 @ '' at '') (snd (st_max st))],
                      raised = None\<rparr>))"

text \<open>
  Lines 126 to 212. With no name at all \<^verbatim>\<open>object\<close> is still the builtin type and
  \<^verbatim>\<open>len(object)\<close> raises \<^verbatim>\<open>TypeError\<close>; \<^verbatim>\<open>objects[1]\<close> raises \<^verbatim>\<open>IndexError\<close> on a
  list of one body.
\<close>

definition main :: "env \<Rightarrow> string list \<Rightarrow> real \<Rightarrow> string \<Rightarrow> string \<Rightarrow> run option" where
  "main e names start duration_arg resolution_arg =
     (case resolve_all (env_stars e) names of
        Inl err \<Rightarrow> Some \<lparr>printed = [], raised = Some err\<rparr>
      | Inr objects \<Rightarrow>
          (let duration = strToSeconds (filter (\<lambda>c. c \<noteq> CHR '' '') duration_arg);
               resolution = strToSeconds (filter (\<lambda>c. c \<noteq> CHR '' '') resolution_arg);
               out = setup_lines objects start duration resolution
           in if length objects \<noteq> 2 \<and> names = []
              then Some \<lparr>printed = out, raised = Some TypeError\<rparr>
              else
                (let out = (if length objects \<noteq> 2 then out @ [warning names] else out)
                 in case objects of
                      a # b # _ \<Rightarrow>
                        (case scan (env_sep e a b) start duration resolution of
                           None \<Rightarrow> None
                         | Some st \<Rightarrow> Some (results e out st))
                    | _ \<Rightarrow> Some \<lparr>printed = out, raised = Some IndexError\<rparr>)))"

text \<open>An environment for examples: no stars, a constant separation of 1 radian.\<close>

definition test_env :: env where
  "test_env = \<lparr>env_stars = [], env_sep = (\<lambda>a b. fixed_sep 1), env_str_float = (\<lambda>s. None)\<rparr>"

section \<open>Properties of the duration parser\<close>

subsection \<open>What the searches find in a token string\<close>

lemma unit_not_digit: "u \<in> set units \<Longrightarrow> \<not> is_digit u"
  by (auto simp: units_def is_digit_def)

lemma match_at_token:
  assumes "ds \<noteq> []" "list_all is_digit ds" "\<not> is_digit u"
  shows "match_at u (ds @ u # rest) = Some ds"
proof -
  have a: "takeWhile is_digit (ds @ u # rest) = ds"
    using assms by (simp add: takeWhile_append2 list_all_iff)
  have b: "dropWhile is_digit (ds @ u # rest) = u # rest"
    using assms by (simp add: dropWhile_append2 list_all_iff)
  show ?thesis using assms(1) by (simp add: match_at_def a b)
qed

lemma re_search_token:
  assumes "ds \<noteq> []" "list_all is_digit ds" "\<not> is_digit u"
  shows "re_search u (ds @ u # rest) = Some ds"
proof (cases ds)
  case Nil
  with assms show ?thesis by simp
next
  case (Cons d ds')
  have "match_at u ((d # ds') @ u # rest) = Some (d # ds')"
    using match_at_token [OF assms, of rest] Cons by simp
  then show ?thesis using Cons by simp
qed

lemma match_at_other:
  assumes "list_all is_digit ds" "\<not> is_digit v" "v \<noteq> u"
  shows "match_at u (ds @ v # rest) = None"
proof -
  have b: "dropWhile is_digit (ds @ v # rest) = v # rest"
    using assms by (simp add: dropWhile_append2 list_all_iff)
  show ?thesis using assms(3) by (simp add: match_at_def b)
qed

lemma re_search_skip:
  assumes "list_all is_digit ds" "\<not> is_digit v" "v \<noteq> u"
  shows "re_search u (ds @ v # rest) = re_search u rest"
  using assms
proof (induction ds)
  case Nil
  have "match_at u ([] @ v # rest) = None"
    by (rule match_at_other) (use Nil in simp_all)
  then show ?case by simp
next
  case (Cons d ds)
  have "match_at u ((d # ds) @ v # rest) = None"
    by (rule match_at_other) (use Cons.prems in simp_all)
  then show ?case using Cons by simp
qed

lemma re_search_render:
  assumes "list_all valid_token toks" "u \<in> set units"
  shows "re_search u (render toks) = map_option fst (find (\<lambda>tk. snd tk = u) toks)"
  using assms(1)
proof (induction toks)
  case Nil
  then show ?case by (simp add: render_def)
next
  case (Cons tk toks)
  obtain ds v where tk: "tk = (ds, v)" by (cases tk)
  have v: "ds \<noteq> []" "list_all is_digit ds" "\<not> is_digit v"
    using Cons.prems tk by (simp_all add: valid_token_def unit_not_digit)
  have r: "render (tk # toks) = ds @ v # render toks"
    by (simp add: render_def tk)
  show ?case
  proof (cases "v = u")
    case True
    then show ?thesis using re_search_token [OF v, of "render toks"] r tk by simp
  next
    case False
    then show ?thesis
      using re_search_skip [OF v(2) v(3) False, of "render toks"] r tk Cons by simp
  qed
qed

lemma strToSeconds_amount:
  assumes "list_all valid_token toks"
  shows "strToSeconds (render toks) =
         amount toks CHR ''d'' * 86400 + amount toks CHR ''h'' * 3600
         + amount toks CHR ''m'' * 60 + amount toks CHR ''s''"
proof -
  have u: "CHR ''d'' \<in> set units" "CHR ''h'' \<in> set units" "CHR ''m'' \<in> set units"
    "CHR ''s'' \<in> set units" by (simp_all add: units_def)
  show ?thesis
    unfolding strToSeconds_def Let_def amount_def
    by (simp add: re_search_render [OF assms] u split: option.splits)
qed

lemma amount_Cons:
  "amount (tk # toks) u = (if snd tk = u then py_int (fst tk) else amount toks u)"
  by (simp add: amount_def)

lemma amount_absent: "u \<notin> snd ` set toks \<Longrightarrow> amount toks u = 0"
  by (induction toks) (auto simp: amount_Cons amount_def)

lemma amount_sum:
  assumes "list_all valid_token toks" "distinct (map snd toks)"
  shows "amount toks CHR ''d'' * 86400 + amount toks CHR ''h'' * 3600
         + amount toks CHR ''m'' * 60 + amount toks CHR ''s''
         = (\<Sum>tk\<leftarrow>toks. py_int (fst tk) * unit_seconds (snd tk))"
  using assms
proof (induction toks)
  case Nil
  then show ?case by (simp add: amount_def)
next
  case (Cons tk toks)
  have a: "amount toks (snd tk) = 0"
    using Cons.prems(2) by (intro amount_absent) simp
  have m: "snd tk \<in> set units" using Cons.prems(1) by (simp add: valid_token_def)
  have ih: "amount toks CHR ''d'' * 86400 + amount toks CHR ''h'' * 3600
         + amount toks CHR ''m'' * 60 + amount toks CHR ''s''
         = (\<Sum>tk\<leftarrow>toks. py_int (fst tk) * unit_seconds (snd tk))"
    using Cons by simp
  from m consider "snd tk = CHR ''d''" | "snd tk = CHR ''h''" | "snd tk = CHR ''m''" | "snd tk = CHR ''s''"
    by (auto simp: units_def)
  then show ?case
  proof cases
    case 1 then show ?thesis using a ih [symmetric] by (simp add: amount_Cons unit_seconds_def)
  next
    case 2 then show ?thesis using a ih [symmetric] by (simp add: amount_Cons unit_seconds_def)
  next
    case 3 then show ?thesis using a ih [symmetric] by (simp add: amount_Cons unit_seconds_def)
  next
    case 4 then show ?thesis using a ih [symmetric] by (simp add: amount_Cons unit_seconds_def)
  qed
qed

lemma has_pattern_Cons: "has_pattern cs \<Longrightarrow> has_pattern (c # cs)"
  unfolding has_pattern_def
proof -
  assume "\<exists>i. Suc i < length cs \<and> is_digit (cs ! i) \<and> cs ! Suc i \<in> set units"
  then obtain i where "Suc i < length cs" "is_digit (cs ! i)" "cs ! Suc i \<in> set units" by blast
  then have "Suc (Suc i) < length (c # cs) \<and> is_digit ((c # cs) ! Suc i) \<and> (c # cs) ! Suc (Suc i) \<in> set units"
    by simp
  then show "\<exists>i. Suc i < length (c # cs) \<and> is_digit ((c # cs) ! i) \<and> (c # cs) ! Suc i \<in> set units"
    by blast
qed

lemma match_at_has_pattern:
  assumes "match_at u s = Some ds" "u \<in> set units"
  shows "has_pattern s"
proof -
  let ?t = "takeWhile is_digit s" and ?d = "dropWhile is_digit s"
  from assms(1) have ne: "?t \<noteq> []" and tk: "take 1 ?d = [u]"
    by (auto simp: match_at_def Let_def split: if_splits)
  from tk obtain rest where d: "?d = u # rest" by (cases ?d) auto
  have s: "s = ?t @ u # rest" using d takeWhile_dropWhile_id [of is_digit s] by simp
  let ?i = "length ?t - 1"
  have i: "Suc ?i = length ?t" using ne by (cases ?t) auto
  have "s ! ?i = ?t ! ?i" using ne by (subst s) (simp add: nth_append)
  moreover have "?t ! ?i \<in> set ?t" using ne by simp
  ultimately have dg: "is_digit (s ! ?i)" by (metis set_takeWhileD)
  have "s ! Suc ?i = u" unfolding i by (subst s) (simp add: nth_append)
  moreover have "Suc ?i < length s" unfolding i by (subst s) simp
  ultimately show ?thesis using dg assms(2) unfolding has_pattern_def by blast
qed

lemma re_search_has_pattern:
  "re_search u s = Some g \<Longrightarrow> u \<in> set units \<Longrightarrow> has_pattern s"
proof (induction s)
  case Nil
  then show ?case by simp
next
  case (Cons c cs)
  show ?case
  proof (cases "match_at u (c # cs)")
    case None
    with Cons show ?thesis by (simp add: has_pattern_Cons)
  next
    case (Some ds)
    then show ?thesis using match_at_has_pattern Cons.prems(2) by blast
  qed
qed

lemma re_search_no_pattern:
  "\<not> has_pattern s \<Longrightarrow> u \<in> set units \<Longrightarrow> re_search u s = None"
  using re_search_has_pattern by (cases "re_search u s") auto

lemma strToSeconds_no_pattern: "\<not> has_pattern s \<Longrightarrow> strToSeconds s = 0"
  by (simp add: strToSeconds_def re_search_no_pattern units_def)

lemma no_pattern_abc: "\<not> has_pattern ''abc''"
proof
  assume "has_pattern ''abc''"
  then obtain i where i: "Suc i < length ''abc''" "is_digit (''abc'' ! i)"
    unfolding has_pattern_def by blast
  then have "i = 0 \<or> i = 1" by auto
  with i(2) show False by (auto simp: is_digit_def)
qed

lemma valid_tokens_2d3h: "valid_tokens [(''2'', CHR ''d''), (''3'', CHR ''h'')]"
  by (simp add: valid_tokens_def valid_token_def is_digit_def units_def)

lemma render_2d3h: "render [(''2'', CHR ''d''), (''3'', CHR ''h'')] = ''2d3h''"
  by (simp add: render_def)

text \<open>
  A unit written twice is counted once: each search stops at its leftmost match, so
  only the first token of a unit contributes.
\<close>

lemma strToSeconds_repeated_unit: "strToSeconds ''1d2d'' = 86400"
  by (simp add: strToSeconds_def match_at_def is_digit_def py_int_def)

text \<open>
  C6 (as stated): the parser returns the sum of the units' contributions, and in
  particular maps \<^verbatim>\<open>"2d3h"\<close> to 176400. The source computes
  \<^verbatim>\<open>int("2") * 24 * 60 * 60 + int("3") * 60 * 60\<close>, which is 172800 + 10800 = 183600;
  176400 is the value of two days and one hour. The stated example fails.
\<close>

theorem strToSeconds_2d3h_counterexample: "strToSeconds ''2d3h'' \<noteq> 176400"
  by (simp add: strToSeconds_def match_at_def is_digit_def py_int_def)

text \<open>
  C6 (amended): for every duration string made of valid unit tokens, each unit used at
  most once and in any order, \<^verbatim>\<open>strToSeconds\<close> returns the sum of the tokens'
  contributions, which is d * 86400 + h * 3600 + m * 60 + s with an absent unit counting
  0; \<^verbatim>\<open>"2d3h"\<close> yields 183600; and a string in which no digit is directly
  followed by a unit letter yields 0.
\<close>

theorem strToSeconds_sum:
  "(valid_tokens toks \<longrightarrow>
      strToSeconds (render toks) = (\<Sum>tk\<leftarrow>toks. py_int (fst tk) * unit_seconds (snd tk))
      \<and> strToSeconds (render toks) =
          amount toks CHR ''d'' * 86400 + amount toks CHR ''h'' * 3600
          + amount toks CHR ''m'' * 60 + amount toks CHR ''s'')
   \<and> strToSeconds ''2d3h'' = 183600
   \<and> (\<not> has_pattern s \<longrightarrow> strToSeconds s = 0)"
proof -
  have "strToSeconds ''2d3h'' = 183600"
    by (simp add: strToSeconds_def match_at_def is_digit_def py_int_def)
  then show ?thesis
    using strToSeconds_amount [of toks] amount_sum [of toks] strToSeconds_no_pattern [of s]
    by (simp add: valid_tokens_def)
qed

theorem strToSeconds_sum_witness:
  "valid_tokens [(''2'', CHR ''d''), (''3'', CHR ''h'')]
   \<and> strToSeconds (render [(''2'', CHR ''d''), (''3'', CHR ''h'')]) = 183600
   \<and> \<not> has_pattern ''abc'' \<and> strToSeconds ''abc'' = 0"
  using strToSeconds_sum [of "[(''2'', CHR ''d''), (''3'', CHR ''h'')]" "''abc''"]
    valid_tokens_2d3h no_pattern_abc
  by (simp add: render_def)

section \<open>Properties of the scan\<close>

subsection \<open>Unrolling the loop\<close>

lemma scan_loop_exit: "\<not> st_t st < e \<Longrightarrow> scan_loop sep res e st = Some st"
  by (subst scan_loop.simps) simp

lemma scan_loop_step: "st_t st < e \<Longrightarrow> scan_loop sep res e st = scan_loop sep res e (scan_body sep res st)"
  by (subst scan_loop.simps) simp

lemma st_t_body: "st_t (scan_body sep res st) = st_t st + real res / 86400"
  by (simp add: scan_body_def Let_def)

lemma st_t_iter: "st_t ((scan_body sep res ^^ n) st) = st_t st + real n * (real res / 86400)"
  by (induction n) (simp_all add: st_t_body algebra_simps)


lemma scan_loop_unroll:
  "(\<And>k. k < n \<Longrightarrow> st_t st + real k * (real res / 86400) < e)
   \<Longrightarrow> scan_loop sep res e st = scan_loop sep res e ((scan_body sep res ^^ n) st)"
proof (induction n)
  case 0
  then show ?case by simp
next
  case (Suc n)
  have "st_t ((scan_body sep res ^^ n) st) < e"
    using Suc.prems [of n] by (simp add: st_t_iter)
  then have "scan_loop sep res e ((scan_body sep res ^^ n) st)
             = scan_loop sep res e ((scan_body sep res ^^ Suc n) st)"
    by (simp add: scan_loop_step)
  moreover have "scan_loop sep res e st = scan_loop sep res e ((scan_body sep res ^^ n) st)"
    using Suc by simp
  ultimately show ?case by simp
qed

lemma instant_less_end:
  "instant start res k < end_of start dur \<longleftrightarrow> k * res < dur"
proof -
  have "instant start res k < end_of start dur \<longleftrightarrow> real (k * res) / 86400 < real dur / 86400"
    by (simp add: instant_def end_of_def)
  also have "\<dots> \<longleftrightarrow> real (k * res) < real dur"
    by (simp add: divide_less_cancel)
  also have "\<dots> \<longleftrightarrow> k * res < dur"
    by (rule of_nat_less_iff)
  finally show ?thesis .
qed

lemma less_scan_steps:
  assumes "0 < res"
  shows "k * res < dur \<longleftrightarrow> k < scan_steps dur res"
proof -
  have "k < (dur + res - 1) div res \<longleftrightarrow> Suc k \<le> (dur + res - 1) div res"
    by auto
  also have "\<dots> \<longleftrightarrow> Suc k * res \<le> dur + res - 1"
    using assms by (simp add: less_eq_div_iff_mult_less_eq)
  also have "\<dots> \<longleftrightarrow> k * res < dur"
    using assms by auto
  finally show ?thesis by (simp add: scan_steps_def)
qed

lemma scan_loop_closed:
  assumes "0 < res"
  shows "scan_loop sep res (end_of start dur) (scan_init start)
         = Some ((scan_body sep res ^^ scan_steps dur res) (scan_init start))"
proof -
  let ?n = "scan_steps dur res" and ?e = "end_of start dur"
  have t0: "st_t (scan_init start) = start" by (simp add: scan_init_def)
  have run: "scan_loop sep res ?e (scan_init start)
             = scan_loop sep res ?e ((scan_body sep res ^^ ?n) (scan_init start))"
  proof (rule scan_loop_unroll)
    fix k assume "k < ?n"
    then have "instant start res k < ?e"
      using assms by (simp add: instant_less_end less_scan_steps)
    then show "st_t (scan_init start) + real k * (real res / 86400) < ?e"
      by (simp add: t0 instant_def)
  qed
  have "\<not> instant start res ?n < ?e"
    using assms by (simp add: instant_less_end less_scan_steps)
  then have "\<not> st_t ((scan_body sep res ^^ ?n) (scan_init start)) < ?e"
    by (simp add: st_t_iter t0 instant_def)
  then show ?thesis using run by (simp add: scan_loop_exit)
qed


lemma scan_loop_zero_step:
  assumes "scan_loop sp r e s = Some y"
  shows "r = 0 \<longrightarrow> \<not> st_t s < e"
proof (rule scan_loop.raw_induct
    [where P = "\<lambda>sp r e s y. r = 0 \<longrightarrow> \<not> st_t s < e", OF _ assms])
  fix f sp r e s y
  assume ih: "\<And>sp r e s y. f sp r e s = Some y \<Longrightarrow> r = 0 \<longrightarrow> \<not> st_t s < e"
    and eq: "(if st_t s < e then f sp r e (scan_body sp r s) else Some s) = Some (y::scan_state)"
  show "r = 0 \<longrightarrow> \<not> st_t s < e"
  proof (intro impI notI)
    assume r: "r = 0" and lt: "st_t s < e"
    have "st_t (scan_body sp r s) < e" using r lt by (simp add: st_t_body)
    moreover have "f sp r e (scan_body sp r s) = Some y" using eq lt by simp
    ultimately show False using ih r by blast
  qed
qed

lemma scan_loop_diverges: "st_t st < e \<Longrightarrow> scan_loop sep 0 e st = None"
  using scan_loop_zero_step [of sep 0 e st] by (cases "scan_loop sep 0 e st") auto


lemma st_min_body:
  "st_min (scan_body sep res s)
   = (if sep (st_t s) < fst (st_min s) then (sep (st_t s), st_t s) else st_min s)"
  by (simp add: scan_body_def Let_def)

lemma st_max_body:
  "st_max (scan_body sep res s)
   = (if sep (st_t s) > fst (st_max s) then (sep (st_t s), st_t s) else st_max s)"
  by (simp add: scan_body_def Let_def)

lemma st_min_iter_le:
  "fst (st_min ((scan_body sep res ^^ n) st)) \<le> fst (st_min st)"
proof (induction n)
  case 0
  then show ?case by simp
next
  case (Suc n)
  have "fst (st_min (scan_body sep res ((scan_body sep res ^^ n) st)))
        \<le> fst (st_min ((scan_body sep res ^^ n) st))"
    by (simp add: st_min_body)
  then show ?case using Suc by simp
qed

lemma st_min_iter_lb:
  "k < n \<Longrightarrow> fst (st_min ((scan_body sep res ^^ n) st))
     \<le> sep (st_t st + real k * (real res / 86400))"
proof (induction n)
  case 0
  then show ?case by simp
next
  case (Suc n)
  let ?s = "(scan_body sep res ^^ n) st"
  have step: "fst (st_min (scan_body sep res ?s)) \<le> fst (st_min ?s)"
    "fst (st_min (scan_body sep res ?s)) \<le> sep (st_t ?s)"
    by (simp_all add: st_min_body)
  show ?case
  proof (cases "k = n")
    case True
    then show ?thesis using step(2) by (simp add: st_t_iter)
  next
    case False
    then have "k < n" using Suc.prems by simp
    then show ?thesis using Suc.IH step(1) by simp
  qed
qed

lemma st_max_iter_ub:
  "k < n \<Longrightarrow> sep (st_t st + real k * (real res / 86400))
     \<le> fst (st_max ((scan_body sep res ^^ n) st))"
proof (induction n)
  case 0
  then show ?case by simp
next
  case (Suc n)
  let ?s = "(scan_body sep res ^^ n) st"
  have step: "fst (st_max ?s) \<le> fst (st_max (scan_body sep res ?s))"
    "sep (st_t ?s) \<le> fst (st_max (scan_body sep res ?s))"
    by (simp_all add: st_max_body)
  show ?case
  proof (cases "k = n")
    case True
    then show ?thesis using step(2) by (simp add: st_t_iter)
  next
    case False
    then have "k < n" using Suc.prems by simp
    then show ?thesis using Suc.IH step(1) by simp
  qed
qed



text \<open>Every returning scan ran the body a definite number of times.\<close>

lemma scan_result:
  assumes "scan sep start dur res = Some r"
  shows "\<exists>n. r = (scan_body sep res ^^ n) (scan_init start)
           \<and> (\<forall>k. instant start res k < end_of start dur \<longleftrightarrow> k < n)"
proof (cases "0 < res")
  case True
  then have "r = (scan_body sep res ^^ scan_steps dur res) (scan_init start)"
    using assms scan_loop_closed [OF True, of sep start dur] by (simp add: scan_def)
  moreover have "\<forall>k. instant start res k < end_of start dur \<longleftrightarrow> k < scan_steps dur res"
    using True by (simp add: instant_less_end less_scan_steps)
  ultimately show ?thesis by blast
next
  case False
  then have z: "res = 0" by simp
  have ne: "\<not> st_t (scan_init start) < end_of start dur"
    using assms scan_loop_zero_step [of sep res "end_of start dur" "scan_init start" r] z
    by (simp add: scan_def)
  then have "r = (scan_body sep res ^^ 0) (scan_init start)"
    using assms by (simp add: scan_def scan_loop_exit)
  moreover have "\<forall>k. instant start res k < end_of start dur \<longleftrightarrow> k < 0"
    using ne z by (simp add: instant_def scan_init_def)
  ultimately show ?thesis by blast
qed

lemma scan_returns: "0 < res \<Longrightarrow>
  scan sep start dur res = Some ((scan_body sep res ^^ scan_steps dur res) (scan_init start))"
  by (simp add: scan_def scan_loop_closed)

lemma scan_zero_duration: "scan sep start 0 res = Some (scan_init start)"
  by (simp add: scan_def end_of_def scan_loop_exit scan_init_def)







subsection \<open>The claims about the scan\<close>





text \<open>
  C1 (as stated): the minimum record is seeded with \<open>\<pi>\<close>, so the returned minimum is
  at most \<open>\<pi>\<close> whenever all sampled separations lie in \<open>[0, \<pi>]\<close>. Line 194 seeds
  it with \<open>2\<pi>\<close>, and a window of duration 0 samples nothing and returns the seed.
\<close>

theorem scan_seed_counterexample:
  "st_min (scan_init 0) \<noteq> (pi, 0)
   \<and> scan (fixed_sep 0) 0 0 1
       = Some \<lparr>st_t = 0, st_min = (2 * pi, 0), st_max = (0, 0), st_trace = []\<rparr>
   \<and> \<not> 2 * pi \<le> pi"
  using scan_zero_duration [of "fixed_sep 0" 0 1] by (simp add: scan_init_def)

text \<open>
  C1 (amended): the minimum record is seeded with \<open>(2\<pi>, start)\<close> and the maximum
  record with \<open>(0, start)\<close>; for every scan with a positive step and a positive
  duration whose sampled separations all lie in \<open>[0, \<pi>]\<close>, the scan returns and the
  minimum record's separation is at most \<open>\<pi>\<close>; and the separation of every returned
  minimum record is at most \<open>2\<pi>\<close>.
\<close>

theorem scan_min_bound:
  "st_min (scan_init start) = (2 * pi, start) \<and> st_max (scan_init start) = (0, start)
   \<and> (0 < resolution \<longrightarrow> 0 < duration \<longrightarrow>
        (\<forall>k. instant start resolution k < end_of start duration \<longrightarrow>
               0 \<le> sep (instant start resolution k) \<and> sep (instant start resolution k) \<le> pi)
        \<longrightarrow> (\<exists>r. scan sep start duration resolution = Some r \<and> fst (st_min r) \<le> pi))
   \<and> (scan sep start duration resolution = Some r \<longrightarrow> fst (st_min r) \<le> 2 * pi)"
proof (intro conjI impI)
  show "st_min (scan_init start) = (2 * pi, start)" "st_max (scan_init start) = (0, start)"
    by (simp_all add: scan_init_def)
next
  assume r: "0 < resolution" and d: "0 < duration"
    and b: "\<forall>k. instant start resolution k < end_of start duration \<longrightarrow>
               0 \<le> sep (instant start resolution k) \<and> sep (instant start resolution k) \<le> pi"
  let ?n = "scan_steps duration resolution"
  let ?r = "(scan_body sep resolution ^^ ?n) (scan_init start)"
  have "0 < ?n" using less_scan_steps [OF r, of 0 duration] d by simp
  then have "fst (st_min ?r) \<le> sep (st_t (scan_init start) + real 0 * (real resolution / 86400))"
    by (rule st_min_iter_lb)
  then have "fst (st_min ?r) \<le> sep start" by (simp add: scan_init_def)
  moreover have "instant start resolution 0 < end_of start duration"
    using d by (simp add: instant_less_end)
  then have "sep (instant start resolution 0) \<le> pi" using b by blast
  then have "sep start \<le> pi" by (simp add: instant_def)
  ultimately have "fst (st_min ?r) \<le> pi" by simp
  then show "\<exists>r. scan sep start duration resolution = Some r \<and> fst (st_min r) \<le> pi"
    using r by (simp add: scan_returns)
next
  assume "scan sep start duration resolution = Some r"
  then obtain n where "r = (scan_body sep resolution ^^ n) (scan_init start)"
    using scan_result by blast
  then have "fst (st_min r) \<le> fst (st_min (scan_init start))"
    by (simp add: st_min_iter_le)
  then show "fst (st_min r) \<le> 2 * pi" by (simp add: scan_init_def)
qed

theorem scan_min_bound_witness:
  "(0::nat) < 60 \<and> (0::nat) < 180
   \<and> (\<exists>r. scan (fixed_sep 1) 0 180 60 = Some r \<and> fst (st_min r) \<le> pi)"
proof -
  have p: "(1::real) \<le> pi" using pi_ge_two by simp
  have n: "(0::nat) < 60" "(0::nat) < 180" by simp_all
  have h: "\<forall>k. instant 0 60 k < end_of 0 180 \<longrightarrow>
         0 \<le> fixed_sep 1 (instant 0 60 k) \<and> fixed_sep 1 (instant 0 60 k) \<le> pi"
    using p by (simp add: fixed_sep_def)
  show ?thesis
    using scan_min_bound [of 0 60 180 "fixed_sep 1"] h n by blast
qed




section \<open>Properties of the angle formatter\<close>

lemma ddToDms_zero:
  "ddToDms sf (PyFloat 0) = ([], RStr ''0 degrees 0 minutes 0.0 seconds'')"
  by (simp add: ddToDms_def py_float_def show_int_def show_nat.simps digit_char_def
      py_round2_def str_hundredths_def)





text \<open>
  C8: when the argument cannot be converted to a float, the formatter does not raise:
  it prints one message and returns the integer 0.
\<close>

theorem ddToDms_fallback:
  "py_float sf v = Inl e \<Longrightarrow>
     ddToDms sf v
     = ([[CHR 0x0A] @ ''ERROR: Could not convert '' @ type_repr v @ '' to float.''], RInt 0)"
  by (simp add: ddToDms_def)

theorem ddToDms_fallback_witness:
  "py_float (\<lambda>s. None) PyNone = Inl TypeError
   \<and> snd (ddToDms (\<lambda>s. None) PyNone) = RInt 0
   \<and> length (fst (ddToDms (\<lambda>s. None) PyNone)) = 1"
  using ddToDms_fallback [of "\<lambda>s. None" PyNone TypeError] by (simp add: py_float_def)

section \<open>Properties of the program\<close>

lemma degrees_2pi: "degrees (2 * pi) = 360"
  by (simp add: degrees_def)

lemma degrees_0: "degrees 0 = 0"
  by (simp add: degrees_def)

lemma ddToDms_360:
  "ddToDms sf (PyFloat 360) = ([], RStr ''360 degrees 0 minutes 0.0 seconds'')"
  by (simp add: ddToDms_def py_float_def show_int_def show_nat.simps digit_char_def
      py_round2_def str_hundredths_def frac_def Let_def)

lemma results_seeds:
  "results e out \<lparr>st_t = start, st_min = (2 * pi, start), st_max = (0, start), st_trace = []\<rparr>
   = \<lparr>printed = out @ [Text ''--------------- results ---------------'',
                        WithDate ''Minimum: 360 degrees 0 minutes 0.0 seconds at '' start,
                        WithDate ''Maximum: 0 degrees 0 minutes 0.0 seconds at '' start],
       raised = None\<rparr>"
  by (simp add: results_def degrees_2pi degrees_0 ddToDms_360 ddToDms_zero)

lemma resolve_moon: "resolve [] ''Moon'' = Inr (Solar ''Moon'')"
  by (simp add: resolve_def solar_def)

lemma resolve_sun: "resolve [] ''Sun'' = Inr (Solar ''Sun'')"
  by (simp add: resolve_def solar_def)

lemma resolve_mars: "resolve [] ''Mars'' = Inr (Solar ''Mars'')"
  by (simp add: resolve_def solar_def)

lemma strToSeconds_0s: "strToSeconds ''0s'' = 0"
  by (simp add: strToSeconds_def match_at_def is_digit_def py_int_def)

lemma strToSeconds_1s: "strToSeconds ''1s'' = 1"
  by (simp add: strToSeconds_def match_at_def is_digit_def py_int_def)

lemma strToSeconds_1m: "strToSeconds ''1m'' = 60"
  by (simp add: strToSeconds_def match_at_def is_digit_def py_int_def)

lemma resolve_all_length:
  "resolve_all stars names = Inr objects \<Longrightarrow> length objects = length names"
  by (induction names arbitrary: objects) (auto split: sum.splits)

lemma resolve_two: "resolve_all [] [''Moon'', ''Sun''] = Inr [Solar ''Moon'', Solar ''Sun'']"
  by (simp add: resolve_moon resolve_sun)

lemma resolve_one: "resolve_all [] [''Moon''] = Inr [Solar ''Moon'']"
  by (simp add: resolve_moon)

lemma resolve_three:
  "resolve_all [] [''Moon'', ''Sun'', ''Mars'']
   = Inr [Solar ''Moon'', Solar ''Sun'', Solar ''Mars'']"
  by (simp add: resolve_moon resolve_sun resolve_mars)

lemma scan_zero_step_diverges:
  "0 < duration \<Longrightarrow> scan sep start duration 0 = None"
  unfolding scan_def
  by (rule scan_loop_diverges) (simp add: scan_init_def end_of_def)

lemma results_scan_init:
  "results e out (scan_init start)
   = \<lparr>printed = out @ [Text ''--------------- results ---------------'',
                        WithDate ''Minimum: 360 degrees 0 minutes 0.0 seconds at '' start,
                        WithDate ''Maximum: 0 degrees 0 minutes 0.0 seconds at '' start],
       raised = None\<rparr>"
  using results_seeds [of e out start] by (simp add: scan_init_def)

lemma main_two:
  assumes "resolve_all (env_stars e) names = Inr (a # b # rest)"
  shows "main e names start d r
         = (let duration = strToSeconds (filter (\<lambda>c. c \<noteq> CHR '' '') d);
                resolution = strToSeconds (filter (\<lambda>c. c \<noteq> CHR '' '') r);
                out = setup_lines (a # b # rest) start duration resolution;
                out = (if rest \<noteq> [] then out @ [warning names] else out)
            in case scan (env_sep e a b) start duration resolution of
                 None \<Rightarrow> None
               | Some st \<Rightarrow> Some (results e out st))"
proof -
  have "length (a # b # rest) = length names"
    using assms by (rule resolve_all_length)
  then have n: "names \<noteq> []" by auto
  show ?thesis using assms n by (simp add: main_def Let_def)
qed

lemma main_one:
  assumes "resolve_all (env_stars e) names = Inr [a]"
  shows "main e names start d r
         = Some \<lparr>printed = setup_lines [a] start
                              (strToSeconds (filter (\<lambda>c. c \<noteq> CHR '' '') d))
                              (strToSeconds (filter (\<lambda>c. c \<noteq> CHR '' '') r))
                            @ [warning names],
                 raised = Some IndexError\<rparr>"
proof -
  have "length [a] = length names"
    using assms by (rule resolve_all_length)
  then have n: "names \<noteq> []" by auto
  show ?thesis using assms n by (simp add: main_def Let_def)
qed

lemma warning_mars: "warning [''Moon'', ''Sun'', ''Mars''] = Text ''Can only handle 2 objects: 4''"
  by (simp add: warning_def show_nat.simps digit_char_def)

lemma warning_moon: "warning [''Moon''] = Text ''Can only handle 2 objects: 4''"
  by (simp add: warning_def show_nat.simps digit_char_def)

text \<open>
  C5 (as stated): a step of 0 seconds is rejected before the scan: the program reports
  an error and does not enter the loop. The program checks nothing between line 167 and
  the loop: with a step of 0 and a positive duration it enters the loop and never
  leaves it, and with a step of 0 and a duration of 0 it prints its results and raises
  nothing.
\<close>

theorem zero_step_not_rejected_counterexample:
  "main test_env [''Moon'', ''Sun''] 0 ''1m'' ''0s'' = None
   \<and> main test_env [''Moon'', ''Sun''] 0 ''0s'' ''0s''
       = Some \<lparr>printed = setup_lines [Solar ''Moon'', Solar ''Sun''] 0 0 0
                   @ [Text ''--------------- results ---------------'',
                      WithDate ''Minimum: 360 degrees 0 minutes 0.0 seconds at '' 0,
                      WithDate ''Maximum: 0 degrees 0 minutes 0.0 seconds at '' 0],
               raised = None\<rparr>"
proof -
  have r: "resolve_all (env_stars test_env) [''Moon'', ''Sun''] = Inr [Solar ''Moon'', Solar ''Sun'']"
    by (simp add: test_env_def resolve_moon resolve_sun)
  show ?thesis
    by (simp add: main_two [OF r] strToSeconds_0s strToSeconds_1m scan_zero_step_diverges
        scan_zero_duration results_scan_init)
qed

text \<open>
  C5 (amended): a step of 0 seconds is not rejected. Given at least two bodies, the
  program reaches the scan without raising; when the duration is positive the loop
  never ends, and when the duration is 0 the program finishes without raising.
\<close>

theorem zero_step_not_rejected:
  "resolve_all (env_stars e) names = Inr (a # b # rest) \<Longrightarrow>
   strToSeconds (filter (\<lambda>c. c \<noteq> CHR '' '') resolution_arg) = 0 \<Longrightarrow>
     (0 < strToSeconds (filter (\<lambda>c. c \<noteq> CHR '' '') duration_arg) \<longrightarrow>
        main e names start duration_arg resolution_arg = None)
     \<and> (strToSeconds (filter (\<lambda>c. c \<noteq> CHR '' '') duration_arg) = 0 \<longrightarrow>
        (\<exists>r. main e names start duration_arg resolution_arg = Some r \<and> raised r = None))"
  by (simp add: main_two Let_def scan_zero_step_diverges scan_zero_duration results_scan_init)

theorem zero_step_not_rejected_witness:
  "resolve_all (env_stars test_env) [''Moon'', ''Sun''] = Inr [Solar ''Moon'', Solar ''Sun'']
   \<and> strToSeconds (filter (\<lambda>c. c \<noteq> CHR '' '') ''0 s'') = 0
   \<and> 0 < strToSeconds (filter (\<lambda>c. c \<noteq> CHR '' '') ''1 m'')
   \<and> main test_env [''Moon'', ''Sun''] 0 ''1 m'' ''0 s'' = None"
proof -
  have r: "resolve_all (env_stars test_env) [''Moon'', ''Sun''] = Inr [Solar ''Moon'', Solar ''Sun'']"
    by (simp add: test_env_def resolve_moon resolve_sun)
  have z: "strToSeconds (filter (\<lambda>c. c \<noteq> CHR '' '') ''0 s'') = 0"
    by (simp add: strToSeconds_0s)
  have p: "0 < strToSeconds (filter (\<lambda>c. c \<noteq> CHR '' '') ''1 m'')"
    by (simp add: strToSeconds_1m)
  show ?thesis
    using zero_step_not_rejected [OF r z, of "''1 m''" 0] r z p by blast
qed

text \<open>
  C9 (as stated): for every list of bodies whose length is not 2 the program prints a
  warning and goes on to scan the first two. With one body the warning is printed and
  \<^verbatim>\<open>objects[1]\<close> then raises \<^verbatim>\<open>IndexError\<close>: the scan does not run.
\<close>

theorem object_count_counterexample:
  "main test_env [''Moon''] 0 ''1m'' ''1s''
   = Some \<lparr>printed = setup_lines [Solar ''Moon''] 0 60 1
                      @ [Text ''Can only handle 2 objects: 4''],
           raised = Some IndexError\<rparr>"
proof -
  have r: "resolve_all (env_stars test_env) [''Moon''] = Inr [Solar ''Moon'']"
    by (simp add: test_env_def resolve_moon)
  show ?thesis
    by (simp add: main_one [OF r] strToSeconds_1m strToSeconds_1s warning_moon)
qed

text \<open>
  C9 (amended): for every list of more than two bodies the program prints the warning
  and goes on, scanning the first two bodies; for a list of one body it prints the
  warning and then raises \<^verbatim>\<open>IndexError\<close> before the scan.
\<close>

theorem object_count_warning:
  "resolve_all (env_stars e) names = Inr objects \<Longrightarrow>
     (2 < length objects \<longrightarrow>
        main e names start duration_arg resolution_arg
        = (case scan (env_sep e (objects ! 0) (objects ! 1)) start
                  (strToSeconds (filter (\<lambda>c. c \<noteq> CHR '' '') duration_arg))
                  (strToSeconds (filter (\<lambda>c. c \<noteq> CHR '' '') resolution_arg)) of
             None \<Rightarrow> None
           | Some st \<Rightarrow>
               Some (results e
                 (setup_lines objects start
                    (strToSeconds (filter (\<lambda>c. c \<noteq> CHR '' '') duration_arg))
                    (strToSeconds (filter (\<lambda>c. c \<noteq> CHR '' '') resolution_arg))
                  @ [warning names]) st)))
     \<and> (length objects = 1 \<longrightarrow>
        main e names start duration_arg resolution_arg
        = Some \<lparr>printed = setup_lines objects start
                    (strToSeconds (filter (\<lambda>c. c \<noteq> CHR '' '') duration_arg))
                    (strToSeconds (filter (\<lambda>c. c \<noteq> CHR '' '') resolution_arg))
                  @ [warning names],
                raised = Some IndexError\<rparr>)"
proof (intro conjI impI)
  assume r: "resolve_all (env_stars e) names = Inr objects" and l: "2 < length objects"
  then obtain a b c rest where o: "objects = a # b # c # rest"
    by (cases objects; cases "tl objects"; cases "tl (tl objects)") auto
  show "main e names start duration_arg resolution_arg
        = (case scan (env_sep e (objects ! 0) (objects ! 1)) start
                  (strToSeconds (filter (\<lambda>c. c \<noteq> CHR '' '') duration_arg))
                  (strToSeconds (filter (\<lambda>c. c \<noteq> CHR '' '') resolution_arg)) of
             None \<Rightarrow> None
           | Some st \<Rightarrow>
               Some (results e
                 (setup_lines objects start
                    (strToSeconds (filter (\<lambda>c. c \<noteq> CHR '' '') duration_arg))
                    (strToSeconds (filter (\<lambda>c. c \<noteq> CHR '' '') resolution_arg))
                  @ [warning names]) st))"
    unfolding o
    using main_two [of e names a b "c # rest" start duration_arg resolution_arg] r [unfolded o]
    by (simp add: Let_def)
next
  assume r: "resolve_all (env_stars e) names = Inr objects" and l: "length objects = 1"
  then obtain a where o: "objects = [a]"
    by (cases objects) auto
  show "main e names start duration_arg resolution_arg
        = Some \<lparr>printed = setup_lines objects start
                    (strToSeconds (filter (\<lambda>c. c \<noteq> CHR '' '') duration_arg))
                    (strToSeconds (filter (\<lambda>c. c \<noteq> CHR '' '') resolution_arg))
                  @ [warning names],
                raised = Some IndexError\<rparr>"
    unfolding o
    using main_one [of e names a start duration_arg resolution_arg] r [unfolded o] by simp
qed

theorem object_count_warning_witness:
  "resolve_all (env_stars test_env) [''Moon'', ''Sun'', ''Mars'']
     = Inr [Solar ''Moon'', Solar ''Sun'', Solar ''Mars'']
   \<and> 2 < length [Solar ''Moon'', Solar ''Sun'', Solar ''Mars'']
   \<and> main test_env [''Moon'', ''Sun'', ''Mars''] 0 ''0s'' ''1s''
       = Some \<lparr>printed = setup_lines [Solar ''Moon'', Solar ''Sun'', Solar ''Mars''] 0 0 1
                   @ [Text ''Can only handle 2 objects: 4'',
                      Text ''--------------- results ---------------'',
                      WithDate ''Minimum: 360 degrees 0 minutes 0.0 seconds at '' 0,
                      WithDate ''Maximum: 0 degrees 0 minutes 0.0 seconds at '' 0],
               raised = None\<rparr>"
proof -
  have r: "resolve_all (env_stars test_env) [''Moon'', ''Sun'', ''Mars'']
           = Inr [Solar ''Moon'', Solar ''Sun'', Solar ''Mars'']"
    by (simp add: test_env_def resolve_moon resolve_sun resolve_mars)
  have l: "2 < length [Solar ''Moon'', Solar ''Sun'', Solar ''Mars'']" by simp
  show ?thesis
    using object_count_warning [OF r, of 0 "''0s''" "''1s''"] r l
    by (simp add: strToSeconds_0s strToSeconds_1s scan_zero_duration results_scan_init
        warning_mars)
qed

text \<open>
  C10: with a duration of 0 the loop body never runs and the scan returns the seeds,
  \<open>(2\<pi>, start)\<close> for the minimum and \<open>(0, start)\<close> for the maximum; the report
  prints them as 360 degrees and 0 degrees, a minimum above the maximum.
\<close>

theorem zero_duration_report:
  "scan sep start 0 resolution
     = Some \<lparr>st_t = start, st_min = (2 * pi, start), st_max = (0, start), st_trace = []\<rparr>
   \<and> fst (0::real, start) < fst (2 * pi, start)
   \<and> results e out \<lparr>st_t = start, st_min = (2 * pi, start), st_max = (0, start), st_trace = []\<rparr>
     = \<lparr>printed = out @ [Text ''--------------- results ---------------'',
                          WithDate ''Minimum: 360 degrees 0 minutes 0.0 seconds at '' start,
                          WithDate ''Maximum: 0 degrees 0 minutes 0.0 seconds at '' start],
         raised = None\<rparr>
   \<and> main test_env [''Moon'', ''Sun''] 0 ''0s'' ''1m''
     = Some \<lparr>printed = setup_lines [Solar ''Moon'', Solar ''Sun''] 0 0 60
                   @ [Text ''--------------- results ---------------'',
                      WithDate ''Minimum: 360 degrees 0 minutes 0.0 seconds at '' 0,
                      WithDate ''Maximum: 0 degrees 0 minutes 0.0 seconds at '' 0],
             raised = None\<rparr>"
proof -
  have r: "resolve_all (env_stars test_env) [''Moon'', ''Sun''] = Inr [Solar ''Moon'', Solar ''Sun'']"
    by (simp add: test_env_def resolve_moon resolve_sun)
  have m: "main test_env [''Moon'', ''Sun''] 0 ''0s'' ''1m''
     = Some \<lparr>printed = setup_lines [Solar ''Moon'', Solar ''Sun''] 0 0 60
                   @ [Text ''--------------- results ---------------'',
                      WithDate ''Minimum: 360 degrees 0 minutes 0.0 seconds at '' 0,
                      WithDate ''Maximum: 0 degrees 0 minutes 0.0 seconds at '' 0],
             raised = None\<rparr>"
    by (simp add: main_two [OF r] strToSeconds_0s strToSeconds_1m scan_zero_duration
        results_scan_init)
  have s: "scan sep start 0 resolution
     = Some \<lparr>st_t = start, st_min = (2 * pi, start), st_max = (0, start), st_trace = []\<rparr>"
    using scan_zero_duration [of sep start resolution] by (simp add: scan_init_def)
  show ?thesis using s m results_seeds [of e out start] by simp
qed

end
